theory Spec2Isabelle
  imports Complex_Main "HOL-Library.Char_ord" "HOL-Library.List_Lexorder"
    "HOL-Library.Product_Lexorder"
begin

section \<open>Tables\<close>

text \<open>
  The two operations of \<^verbatim>\<open>utils.py\<close> work on pandas tables. A table is modelled by its
  column labels in order, the dtype of each column, and its rows in order, each row with
  its index label. A row maps a column label to a cell; a label that is not a column of
  the table maps to \<open>NA\<close>.

  A cell is missing (\<open>NA\<close>: NaN, NaT), a number, a string or a calendar day. A day is
  written as the number YYYYMMDD, whose order is the chronological order.
\<close>

datatype cell = NA | Num real | Str string | Date int

datatype dtype = NumericT | DatetimeT | ObjectT

datatype key = Column string | Index nat

datatype error =
  KeyError key | ValueError | TypeError | AttributeError | DuplicateLabels | UnmodelledPattern

type_synonym row = "string \<Rightarrow> cell"

type_synonym series = "(nat \<times> cell) list"

record frame =
  cols :: "string list"
  dtypes :: "string \<Rightarrow> dtype"
  rows :: "(nat \<times> row) list"

definition and_then :: "error + 'a \<Rightarrow> ('a \<Rightarrow> error + 'b) \<Rightarrow> error + 'b" where
  "and_then m f = (case m of Inl e \<Rightarrow> Inl e | Inr x \<Rightarrow> f x)"

fun sequence :: "(error + 'a) list \<Rightarrow> error + 'a list" where
  "sequence [] = Inr []"
| "sequence (x # xs) =
     (case x of
        Inl e \<Rightarrow> Inl e
      | Inr v \<Rightarrow> (case sequence xs of Inl e \<Rightarrow> Inl e | Inr vs \<Rightarrow> Inr (v # vs)))"

subsection \<open>Column access\<close>

text \<open>\<^verbatim>\<open>df[c]\<close>: the column as a series, KeyError when there is no such label.\<close>

definition column :: "frame \<Rightarrow> string \<Rightarrow> error + series" where
  "column df c =
     (if c \<in> set (cols df) then Inr (map (\<lambda>(i, r). (i, r c)) (rows df))
      else Inl (KeyError (Column c)))"

text \<open>
  \<^verbatim>\<open>df[[c1, ..., cn]]\<close>: the sub-table of the listed columns, in the listed order. A list
  that repeats a label would build a table with a repeated label, on which a label no
  longer names one column; the model stops there with \<open>DuplicateLabels\<close>.
\<close>

definition restrict :: "string list \<Rightarrow> (string \<Rightarrow> 'a) \<Rightarrow> 'a \<Rightarrow> string \<Rightarrow> 'a" where
  "restrict cs r d c = (if c \<in> set cs then r c else d)"

definition columns :: "frame \<Rightarrow> string list \<Rightarrow> error + frame" where
  "columns df cs =
     (case filter (\<lambda>c. c \<notin> set (cols df)) cs of
        c # _ \<Rightarrow> Inl (KeyError (Column c))
      | [] \<Rightarrow>
          if \<not> distinct cs then Inl DuplicateLabels
          else Inr \<lparr>cols = cs, dtypes = restrict cs (dtypes df) ObjectT,
                    rows = map (\<lambda>(i, r). (i, restrict cs r NA)) (rows df)\<rparr>)"

text \<open>\<^verbatim>\<open>df.drop(columns=[c])\<close>.\<close>

definition drop_column :: "frame \<Rightarrow> string \<Rightarrow> error + frame" where
  "drop_column df c =
     (if c \<notin> set (cols df) then Inl (KeyError (Column c))
      else let cs = filter (\<lambda>x. x \<noteq> c) (cols df)
           in Inr \<lparr>cols = cs, dtypes = restrict cs (dtypes df) ObjectT,
                    rows = map (\<lambda>(i, r). (i, restrict cs r NA)) (rows df)\<rparr>)"

text \<open>
  \<^verbatim>\<open>df.rename(columns={k1: v1, k2: v2})\<close>. Keys that are not labels are ignored; in a Python
  dict literal a repeated key keeps its last value. A renaming that makes two labels
  equal is outside the model (\<open>DuplicateLabels\<close>).
\<close>

definition relabel :: "(string \<times> string) list \<Rightarrow> (string \<Rightarrow> 'a) \<Rightarrow> 'a \<Rightarrow> string \<Rightarrow> 'a" where
  "relabel m r d c = (case map_of m c of Some old \<Rightarrow> r old | None \<Rightarrow> d)"

definition renamed :: "(string \<times> string) list \<Rightarrow> string \<Rightarrow> string" where
  "renamed dict c = (case map_of (rev dict) c of Some n \<Rightarrow> n | None \<Rightarrow> c)"

definition rename :: "frame \<Rightarrow> (string \<times> string) list \<Rightarrow> error + frame" where
  "rename df dict =
     (let new = map (renamed dict) (cols df); m = zip new (cols df)
      in if \<not> distinct new then Inl DuplicateLabels
         else Inr \<lparr>cols = new, dtypes = relabel m (dtypes df) ObjectT,
                   rows = map (\<lambda>(i, r). (i, relabel m r NA)) (rows df)\<rparr>)"

subsection \<open>Comparisons and boolean indexing\<close>

text \<open>
  \<^verbatim>\<open>a < b\<close> on two cells: a missing operand compares false; operands of different kinds
  raise TypeError.
\<close>

fun cell_lt :: "cell \<Rightarrow> cell \<Rightarrow> error + bool" where
  "cell_lt (Date a) (Date b) = Inr (a < b)"
| "cell_lt (Num a) (Num b) = Inr (a < b)"
| "cell_lt (Str a) (Str b) = Inr (a < b)"
| "cell_lt NA _ = Inr False"
| "cell_lt _ NA = Inr False"
| "cell_lt _ _ = Inl TypeError"

definition series_lt :: "series \<Rightarrow> series \<Rightarrow> error + bool list" where
  "series_lt a b = sequence (map2 (\<lambda>(i, x) (j, y). cell_lt x y) a b)"

text \<open>\<^verbatim>\<open>s >= 0\<close> on a column of numeric dtype, whose cells are numbers or missing.\<close>

fun cell_ge0 :: "cell \<Rightarrow> bool" where
  "cell_ge0 (Num x) = (0 \<le> x)"
| "cell_ge0 _ = False"

definition series_ge0 :: "series \<Rightarrow> bool list" where
  "series_ge0 a = map (\<lambda>(i, x). cell_ge0 x) a"

text \<open>\<^verbatim>\<open>df[mask]\<close>: the rows whose mask entry is true, with their index labels.\<close>

definition boolean_index :: "frame \<Rightarrow> bool list \<Rightarrow> frame" where
  "boolean_index df keep = df\<lparr>rows := map snd (filter fst (zip keep (rows df)))\<rparr>"

subsection \<open>Left merge\<close>

text \<open>
  \<^verbatim>\<open>left.merge(right, left_on=[..], right_on=[..], how='left')\<close>, with \<open>on\<close> the list of
  (left key, right key) pairs; \<^verbatim>\<open>on=k\<close> is the pair \<open>(k, k)\<close>. A right key column with the
  name of its left key is dropped from the right table. A label left on both sides gets
  the suffix \<^verbatim>\<open>_x\<close> on the left and \<^verbatim>\<open>_y\<close> on the right. Every left row is kept, in order:
  it is joined with each right row of equal keys, in the right table's order, or with
  missing cells when there is none. The result has a fresh index 0, 1, 2, ...

  When the suffixed labels are not distinct pandas raises MergeError or builds a table with
  a repeated label; the model stops there with \<open>DuplicateLabels\<close>.
\<close>

fun check_keys :: "string list \<Rightarrow> string list \<Rightarrow> (string \<times> string) list \<Rightarrow> error option" where
  "check_keys ls rs [] = None"
| "check_keys ls rs ((lk, rk) # on) =
     (if rk \<notin> set rs then Some (KeyError (Column rk))
      else if lk \<notin> set ls then Some (KeyError (Column lk))
      else check_keys ls rs on)"

definition suffixed :: "string list \<Rightarrow> string \<Rightarrow> string \<Rightarrow> string" where
  "suffixed overlap sfx c = (if c \<in> set overlap then c @ sfx else c)"

definition joined :: "(string \<times> string) list \<Rightarrow> (string \<times> string) list \<Rightarrow>
    (string \<Rightarrow> 'a) \<Rightarrow> (string \<Rightarrow> 'a) \<Rightarrow> 'a \<Rightarrow> string \<Rightarrow> 'a" where
  "joined lm rm l r d c =
     (case map_of lm c of Some old \<Rightarrow> l old | None \<Rightarrow> relabel rm r d c)"

definition matches :: "(string \<times> string) list \<Rightarrow> row \<Rightarrow> row \<Rightarrow> bool" where
  "matches on l r = list_all (\<lambda>(lk, rk). l lk = r rk) on"

definition merge :: "frame \<Rightarrow> frame \<Rightarrow> (string \<times> string) list \<Rightarrow> error + frame" where
  "merge left right on =
     (case check_keys (cols left) (cols right) on of
        Some e \<Rightarrow> Inl e
      | None \<Rightarrow>
          let right_drop = map snd (filter (\<lambda>(lk, rk). lk = rk) on);
              rkeep = filter (\<lambda>c. c \<notin> set right_drop) (cols right);
              overlap = filter (\<lambda>c. c \<in> set rkeep) (cols left);
              lnew = map (suffixed overlap ''_x'') (cols left);
              rnew = map (suffixed overlap ''_y'') rkeep;
              lm = zip lnew (cols left);
              rm = zip rnew rkeep
          in if \<not> distinct (lnew @ rnew) then Inl DuplicateLabels
             else Inr \<lparr>cols = lnew @ rnew,
                       dtypes = joined lm rm (dtypes left) (dtypes right) ObjectT,
                       rows = enumerate 0 (concat (map (\<lambda>(i, l).
                         (case filter (\<lambda>(j, r). matches on l r) (rows right) of
                            [] \<Rightarrow> [joined lm rm l (\<lambda>c. NA) NA]
                          | ms \<Rightarrow> map (\<lambda>(j, r). joined lm rm l r NA) ms)) (rows left)))\<rparr>)"

subsection \<open>Grouping\<close>

text \<open>
  \<^verbatim>\<open>df.groupby(by)[c].idxmax()\<close>: rows with a missing key are left out; the groups come
  in the sorted order of their keys; each group gives the index label of the first row
  holding the maximum of column \<open>c\<close>, missing cells skipped.
\<close>

fun cell_ord :: "cell \<Rightarrow> nat \<times> real \<times> string \<times> int" where
  "cell_ord NA = (0, 0, [], 0)"
| "cell_ord (Num x) = (1, x, [], 0)"
| "cell_ord (Str s) = (2, 0, s, 0)"
| "cell_ord (Date d) = (3, 0, [], d)"

fun idxmax_from :: "nat \<times> cell \<Rightarrow> series \<Rightarrow> error + nat" where
  "idxmax_from (i, b) [] = Inr i"
| "idxmax_from (i, b) ((j, c) # xs) =
     (case cell_lt b c of
        Inl e \<Rightarrow> Inl e
      | Inr b_lt_c \<Rightarrow> if b_lt_c then idxmax_from (j, c) xs else idxmax_from (i, b) xs)"

definition idxmax :: "series \<Rightarrow> error + nat" where
  "idxmax s =
     (case filter (\<lambda>(i, c). c \<noteq> NA) s of
        [] \<Rightarrow> Inl ValueError
      | x # xs \<Rightarrow> idxmax_from x xs)"

definition groupby_idxmax :: "frame \<Rightarrow> string list \<Rightarrow> string \<Rightarrow> error + nat list" where
  "groupby_idxmax df by c =
     (case filter (\<lambda>k. k \<notin> set (cols df)) by of
        k # _ \<Rightarrow> Inl (KeyError (Column k))
      | [] \<Rightarrow>
          if c \<notin> set (cols df) then Inl (KeyError (Column c))
          else
            let kept = filter (\<lambda>(i, r). list_all (\<lambda>k. r k \<noteq> NA) by) (rows df);
                groups = sort_key (map cell_ord) (remdups (map (\<lambda>(i, r). map r by) kept))
            in sequence (map (\<lambda>g. idxmax (map (\<lambda>(i, r). (i, r c))
                 (filter (\<lambda>(i, r). map r by = g) kept))) groups))"

text \<open>\<^verbatim>\<open>df.loc[idx]\<close>: for each listed index label, the rows that carry it.\<close>

definition loc :: "frame \<Rightarrow> nat list \<Rightarrow> error + frame" where
  "loc df idx =
     (case filter (\<lambda>i. i \<notin> fst ` set (rows df)) idx of
        i # _ \<Rightarrow> Inl (KeyError (Index i))
      | [] \<Rightarrow> Inr (df\<lparr>rows := concat (map (\<lambda>i. filter (\<lambda>(j, r). j = i) (rows df)) idx)\<rparr>))"

subsection \<open>Column assignment and date parsing\<close>

text \<open>
  \<^verbatim>\<open>df[c] = values\<close>: the column is replaced, or appended when \<open>c\<close> is a new label.
\<close>

definition setitem :: "frame \<Rightarrow> string \<Rightarrow> dtype \<Rightarrow> cell list \<Rightarrow> frame" where
  "setitem df c t vs =
     \<lparr>cols = (if c \<in> set (cols df) then cols df else cols df @ [c]),
      dtypes = (dtypes df)(c := t),
      rows = map2 (\<lambda>(i, r) v. (i, r(c := v))) (rows df) vs\<rparr>"

text \<open>
  \<^verbatim>\<open>pd.to_datetime(s.astype(str), format='%Y%m%d')\<close> on one cell. A string of eight decimal
  digits that name a calendar day gives that day, a whole number of eight digits is
  printed as those digits first, a missing cell prints as \<^verbatim>\<open>nan\<close> and gives NaT like the
  other spellings of a missing value, and everything else raises ValueError.
\<close>

definition digit_val :: "char \<Rightarrow> int option" where
  "digit_val c = map_of (zip ''0123456789'' [0, 1, 2, 3, 4, 5, 6, 7, 8, 9]) c"

fun decimal :: "int \<Rightarrow> string \<Rightarrow> int option" where
  "decimal n [] = Some n"
| "decimal n (c # cs) =
     (case digit_val c of None \<Rightarrow> None | Some d \<Rightarrow> decimal (10 * n + d) cs)"

definition leap_year :: "int \<Rightarrow> bool" where
  "leap_year y = (y mod 4 = 0 \<and> (y mod 100 \<noteq> 0 \<or> y mod 400 = 0))"

definition days_in_month :: "int \<Rightarrow> int \<Rightarrow> int" where
  "days_in_month y m =
     (if m = 2 then (if leap_year y then 29 else 28)
      else if m \<in> {4, 6, 9, 11} then 30 else 31)"

definition calendar_day :: "int \<Rightarrow> bool" where
  "calendar_day n =
     (let y = n div 10000; m = n div 100 mod 100; d = n mod 100
      in 1 \<le> y \<and> 1 \<le> m \<and> m \<le> 12 \<and> 1 \<le> d \<and> d \<le> days_in_month y m)"

definition nat_strings :: "string list" where
  "nat_strings = [''NaT'', ''nat'', ''NAT'', ''nan'', ''NaN'', ''NAN'', []]"

definition parse_yyyymmdd :: "string \<Rightarrow> error + cell" where
  "parse_yyyymmdd s =
     (if s \<in> set nat_strings then Inr NA
      else if length s \<noteq> 8 then Inl ValueError
      else (case decimal 0 s of
              None \<Rightarrow> Inl ValueError
            | Some n \<Rightarrow> if calendar_day n then Inr (Date n) else Inl ValueError))"

fun to_datetime :: "cell \<Rightarrow> error + cell" where
  "to_datetime (Str s) = parse_yyyymmdd s"
| "to_datetime NA = Inr NA"
| "to_datetime (Num x) =
     (let n = \<lfloor>x\<rfloor>
      in if x = of_int n \<and> 10000000 \<le> n \<and> n \<le> 99999999 \<and> calendar_day n then Inr (Date n)
         else Inl ValueError)"
| "to_datetime (Date d) = Inl ValueError"

section \<open>The two operations\<close>

subsection \<open>The statements both operations share\<close>

text \<open>
  Lines 27 and 99: \<^verbatim>\<open>df[c] = pd.to_datetime(df[c].astype(str), format='%Y%m%d')\<close>, as the
  new value of the table.
\<close>

definition parse_dates :: "frame \<Rightarrow> string \<Rightarrow> error + frame" where
  "parse_dates df c =
     and_then (column df c) (\<lambda>raw.
     and_then (sequence (map (\<lambda>(i, x). to_datetime x) raw)) (\<lambda>parsed.
     Inr (setitem df c DatetimeT parsed)))"

text \<open>
  Lines 30 to 42 and 119 to 131, the same statements in both functions: the merge on the
  identifier, the two temporary labels, the filter on the dates and the selection of the
  latest row of every (identifier, reference date) group.
\<close>

definition latest_before :: "frame \<Rightarrow> frame \<Rightarrow> string \<Rightarrow> string \<Rightarrow> string \<Rightarrow> error + frame" where
  "latest_before goal_df right id_col source_date_col reference_date_col =
     and_then (merge goal_df right [(id_col, id_col)]) (\<lambda>help_df.
     let source_date_tmp = source_date_col @ ''_y'';
         ref_date_tmp = reference_date_col @ ''_x'' in
     and_then (column help_df source_date_tmp) (\<lambda>a.
     and_then (column help_df ref_date_tmp) (\<lambda>b.
     and_then (series_lt a b) (\<lambda>keep.
     let valid_entries = boolean_index help_df keep in
     and_then (groupby_idxmax valid_entries [id_col, ref_date_tmp] source_date_tmp) (\<lambda>idx.
     loc valid_entries idx)))))"

text \<open>
  Lines 58 to 63 and 136 to 141: the final merge onto the target table and the drop of
  the helper column.
\<close>

definition merge_back :: "frame \<Rightarrow> frame \<Rightarrow> string \<Rightarrow> string \<Rightarrow> string \<Rightarrow> error + frame" where
  "merge_back goal_df latest_entries id_col reference_date_col result_col_name =
     and_then (columns latest_entries [id_col, ''ref_date'', result_col_name]) (\<lambda>picked.
     and_then (merge goal_df picked
                 [(id_col, id_col), (reference_date_col, ''ref_date'')]) (\<lambda>merged.
     drop_column merged ''ref_date''))"

subsection \<open>\<^verbatim>\<open>add_latest_entry_before_date\<close>\<close>

text \<open>
  Lines 30 to 69, on the source table with its dates parsed. The two \<^verbatim>\<open>print\<close> reports
  are not part of the returned table and are left out; the lookup
  \<^verbatim>\<open>updated_df[result_col_name]\<close> of the second report is kept, since it can raise.
\<close>

definition attach_latest_entry ::
  "frame \<Rightarrow> frame \<Rightarrow> string \<Rightarrow> string \<Rightarrow> string \<Rightarrow> string \<Rightarrow> string \<Rightarrow> error + frame" where
  "attach_latest_entry goal_df data_df source_date_col reference_date_col value_col
       result_col_name id_col =
     and_then (columns data_df [id_col, source_date_col, value_col]) (\<lambda>right.
     and_then (latest_before goal_df right id_col source_date_col reference_date_col)
       (\<lambda>selected.
     and_then (rename selected
                 [(reference_date_col @ ''_x'', ''ref_date''), (value_col, result_col_name)])
       (\<lambda>latest_entries.
     and_then (column latest_entries result_col_name) (\<lambda>v.
     let latest_entries =
           (if dtypes latest_entries result_col_name = NumericT
            then boolean_index latest_entries (series_ge0 v) else latest_entries) in
     and_then (merge_back goal_df latest_entries id_col reference_date_col result_col_name)
       (\<lambda>updated_df.
     and_then (column updated_df result_col_name) (\<lambda>report.
     Inr updated_df))))))"

text \<open>
  The whole function on table values, where \<^verbatim>\<open>data_df.copy()\<close> is the identity: the
  default of \<^verbatim>\<open>result_col_name\<close> (lines 22 and 23), the parsing of the dates (line 27) and
  the rest.
\<close>

definition add_latest_entry_before_date ::
  "frame \<Rightarrow> frame \<Rightarrow> string \<Rightarrow> string \<Rightarrow> string \<Rightarrow> string option \<Rightarrow> string \<Rightarrow> error + frame" where
  "add_latest_entry_before_date goal_df data_df source_date_col reference_date_col
       value_col result_col_name_opt id_col =
     (let result_col_name =
            (case result_col_name_opt of None \<Rightarrow> value_col | Some n \<Rightarrow> n) in
      and_then (parse_dates data_df source_date_col) (\<lambda>data_df.
      attach_latest_entry goal_df data_df source_date_col reference_date_col value_col
        result_col_name id_col))"

subsection \<open>Matching diagnosis codes\<close>

text \<open>
  Line 109 builds the pattern \<^verbatim>\<open>^{root}(?:\.\d+)?$\<close> from the root's text, unescaped, so
  the root is read as a regular expression. The regular-expression engine is a parameter
  of the operation: given the pattern's text it raises (a pattern that does not compile)
  or gives the strings that \<^verbatim>\<open>re.search\<close> finds the pattern in. Everything proved for the
  operation with an arbitrary engine holds for the engine of Python.
\<close>

type_synonym engine = "string \<Rightarrow> error + (string \<Rightarrow> bool)"

definition root_pattern_text :: "string \<Rightarrow> string" where
  "root_pattern_text code_root =
     ''^'' @ code_root @ ''(?:'' @ [CHR 0x5C] @ ''.'' @ [CHR 0x5C] @ ''d+)?$''"

definition contains :: "(string \<Rightarrow> bool) \<Rightarrow> cell \<Rightarrow> bool" where
  "contains found c = (case c of Str s \<Rightarrow> found s | _ \<Rightarrow> False)"

definition isin :: "string list \<Rightarrow> cell \<Rightarrow> bool" where
  "isin vs c = (case c of Str s \<Rightarrow> s \<in> set vs | _ \<Rightarrow> False)"

text \<open>
  Lines 102 to 110, the mask. \<^verbatim>\<open>if fixed_codes:\<close> and \<^verbatim>\<open>if code_roots:\<close> skip \<^verbatim>\<open>None\<close> and
  the empty list. The \<^verbatim>\<open>.str\<close> accessor raises AttributeError on a column that is not of
  object dtype, and gives a missing value on a cell that is not a string, which
  \<^verbatim>\<open>na=False\<close> turns into false.
\<close>

fun roots_loop :: "engine \<Rightarrow> frame \<Rightarrow> string \<Rightarrow> string list \<Rightarrow> bool list \<Rightarrow> error + bool list" where
  "roots_loop re df code_col [] acc = Inr acc"
| "roots_loop re df code_col (code_root # roots) acc =
     (let pattern = root_pattern_text code_root in
      and_then (column df code_col) (\<lambda>codes.
      if dtypes df code_col \<noteq> ObjectT then Inl AttributeError
      else and_then (re pattern) (\<lambda>found.
           roots_loop re df code_col roots
             (map2 (\<or>) acc (map (\<lambda>(i, c). contains found c) codes)))))"

definition code_mask ::
  "engine \<Rightarrow> frame \<Rightarrow> string \<Rightarrow> string list option \<Rightarrow> string list option \<Rightarrow> error + bool list" where
  "code_mask re diagnostics_df code_col fixed_codes code_roots =
     (let start = replicate (length (rows diagnostics_df)) False in
      and_then
        (case fixed_codes of
           None \<Rightarrow> Inr start
         | Some fc \<Rightarrow>
             if fc = [] then Inr start
             else and_then (column diagnostics_df code_col) (\<lambda>codes.
                  Inr (map2 (\<or>) start (map (\<lambda>(i, c). isin fc c) codes)))) (\<lambda>m.
      case code_roots of
        None \<Rightarrow> Inr m
      | Some roots \<Rightarrow> roots_loop re diagnostics_df code_col roots m))"

text \<open>
  The engine of Python on the patterns of line 109 whose root has no metacharacter but
  the dot: an ordinary character stands for itself and the dot for any character but a
  newline; \<^verbatim>\<open>\d\<close> is a decimal digit; \<^verbatim>\<open>$\<close> holds at the end of the string and just before a
  newline that ends it; since the pattern starts with \<^verbatim>\<open>^\<close>, a search can only match from
  the start of the string. A match gives the possible rests of the string. This engine
  serves the examples and the statements about such roots; on any other pattern it
  answers \<open>UnmodelledPattern\<close>, which says nothing about the program.
\<close>

datatype cls = Chr char | AnyChar | Digit

datatype regex = One cls | Many1 cls | Seq regex regex | Opt regex | Eps | EndAnchor

fun cls_ok :: "cls \<Rightarrow> char \<Rightarrow> bool" where
  "cls_ok (Chr c) x = (x = c)"
| "cls_ok AnyChar x = (x \<noteq> CHR 0x0A)"
| "cls_ok Digit x = (digit_val x \<noteq> None)"

fun many1 :: "cls \<Rightarrow> string \<Rightarrow> string list" where
  "many1 k [] = []"
| "many1 k (x # xs) = (if cls_ok k x then xs # many1 k xs else [])"

fun rests :: "regex \<Rightarrow> string \<Rightarrow> string list" where
  "rests (One k) s = (case s of [] \<Rightarrow> [] | x # xs \<Rightarrow> if cls_ok k x then [xs] else [])"
| "rests (Many1 k) s = many1 k s"
| "rests (Seq a b) s = concat (map (rests b) (rests a s))"
| "rests (Opt a) s = rests a s @ [s]"
| "rests Eps s = [s]"
| "rests EndAnchor s = (if s = [] \<or> s = [CHR 0x0A] then [s] else [])"

definition metachars :: "char list" where
  "metachars = [CHR 0x5C, CHR ''^'', CHR ''$'', CHR ''*'', CHR ''+'', CHR ''?'', CHR ''{'',
     CHR ''}'', CHR ''['', CHR '']'', CHR ''|'', CHR ''('', CHR '')'']"

fun root_regex :: "string \<Rightarrow> regex" where
  "root_regex [] = Eps"
| "root_regex (c # cs) =
     Seq (One (if c = CHR ''.'' then AnyChar else Chr c)) (root_regex cs)"

definition root_matches :: "string \<Rightarrow> string \<Rightarrow> bool" where
  "root_matches code_root s =
     (rests (Seq (root_regex code_root)
               (Seq (Opt (Seq (One (Chr CHR ''.'')) (Many1 Digit))) EndAnchor)) s \<noteq> [])"

definition pattern_root :: "string \<Rightarrow> string option" where
  "pattern_root p =
     (let r = take (length p - 12) (drop 1 p)
      in if p = root_pattern_text r then Some r else None)"

definition plain_engine :: engine where
  "plain_engine p =
     (case pattern_root p of
        None \<Rightarrow> Inl UnmodelledPattern
      | Some r \<Rightarrow>
          if \<exists>c \<in> set r. c \<in> set metachars then Inl UnmodelledPattern
          else Inr (root_matches r))"

text \<open>Line 144: a string cell of white space only becomes a missing value.\<close>

definition is_space :: "char \<Rightarrow> bool" where
  "is_space c = (c \<in> set [CHR '' '', CHR 0x09, CHR 0x0A, CHR 0x0B, CHR 0x0C, CHR 0x0D,
     CHR 0x1C, CHR 0x1D, CHR 0x1E, CHR 0x1F])"

fun blank_to_na :: "cell \<Rightarrow> cell" where
  "blank_to_na (Str s) = (if list_all is_space s then NA else Str s)"
| "blank_to_na c = c"

subsection \<open>\<^verbatim>\<open>add_latest_diagnosis_entry\<close>\<close>

text \<open>Lines 102 to 115: the matched rows, a new table.\<close>

definition matched_rows ::
  "engine \<Rightarrow> frame \<Rightarrow> string \<Rightarrow> string list option \<Rightarrow> string list option \<Rightarrow> error + frame" where
  "matched_rows re diagnostics_df code_col fixed_codes code_roots =
     and_then (code_mask re diagnostics_df code_col fixed_codes code_roots) (\<lambda>keep.
     Inr (boolean_index diagnostics_df keep))"

text \<open>Line 116: \<^verbatim>\<open>matched_df.loc[:, code_col] = '1'\<close>, as the new value of the table.\<close>

definition mark_codes :: "frame \<Rightarrow> string \<Rightarrow> frame" where
  "mark_codes matched_df code_col =
     setitem matched_df code_col ObjectT (replicate (length (rows matched_df)) (Str ''1''))"

text \<open>Lines 119 to 141: from the marked rows to \<^verbatim>\<open>updated_df\<close>.\<close>

definition attach_latest_diagnosis ::
  "frame \<Rightarrow> frame \<Rightarrow> string \<Rightarrow> string \<Rightarrow> string \<Rightarrow> string \<Rightarrow> string \<Rightarrow> error + frame" where
  "attach_latest_diagnosis goal_df matched_df code_col date_col reference_date_col
       result_col_name id_col =
     and_then (columns matched_df [id_col, code_col, date_col]) (\<lambda>right.
     and_then (latest_before goal_df right id_col date_col reference_date_col) (\<lambda>selected.
     and_then (rename selected
                 [(reference_date_col @ ''_x'', ''ref_date''), (code_col, result_col_name)])
       (\<lambda>latest_entries.
     merge_back goal_df latest_entries id_col reference_date_col result_col_name)))"

text \<open>
  Line 144: \<^verbatim>\<open>updated_df[c] = updated_df[c].replace(r'^\s*$', np.nan, regex=True)\<close>, as the
  new value of the table. The lookup of line 147 is the same one.
\<close>

definition blank_result :: "frame \<Rightarrow> string \<Rightarrow> error + frame" where
  "blank_result updated_df result_col_name =
     and_then (column updated_df result_col_name) (\<lambda>col.
     Inr (setitem updated_df result_col_name (dtypes updated_df result_col_name)
            (map (\<lambda>(i, c). blank_to_na c) col)))"

text \<open>The whole function on table values, where the two copies are the identity.\<close>

definition add_latest_diagnosis_entry ::
  "engine \<Rightarrow> frame \<Rightarrow> frame \<Rightarrow> string \<Rightarrow> string \<Rightarrow> string list option \<Rightarrow>
     string list option \<Rightarrow> string \<Rightarrow> string \<Rightarrow> string \<Rightarrow> error + frame" where
  "add_latest_diagnosis_entry re goal_df diagnostics_df code_col date_col fixed_codes
       code_roots reference_date_col result_col_name id_col =
     and_then (parse_dates diagnostics_df date_col) (\<lambda>diagnostics_df.
     and_then (matched_rows re diagnostics_df code_col fixed_codes code_roots) (\<lambda>matched_df.
     and_then (attach_latest_diagnosis goal_df (mark_codes matched_df code_col) code_col
                 date_col reference_date_col result_col_name id_col) (\<lambda>updated_df.
     blank_result updated_df result_col_name)))"

section \<open>The caller's tables\<close>

text \<open>
  A call receives references to the caller's tables. The store maps an address to the
  table at it; \<open>next_free\<close> is the first address not yet in use. \<^verbatim>\<open>df.copy()\<close> puts a
  copy at a fresh address, and an assignment to a column changes the table at the address
  that the name holds. \<open>fresh\<close> is the same allocation, for the new table that an
  expression builds and a name is bound to. Every other statement of the two functions
  builds new tables and changes none.
\<close>

record store =
  heap :: "nat \<Rightarrow> frame option"
  next_free :: nat

definition fresh :: "store \<Rightarrow> frame \<Rightarrow> nat \<times> store" where
  "fresh st df = (next_free st, st\<lparr>heap := (heap st)(next_free st \<mapsto> df),
                                   next_free := Suc (next_free st)\<rparr>)"

definition copy :: "store \<Rightarrow> nat \<Rightarrow> (error + nat) \<times> store" where
  "copy st a =
     (case heap st a of
        None \<Rightarrow> (Inl (KeyError (Index a)), st)
      | Some df \<Rightarrow> (let (b, st') = fresh st df in (Inr b, st')))"

text \<open>
  A statement that replaces the table at an address by a new value of it, computed from
  the old one; nothing changes when the computation raises.
\<close>

definition assign :: "store \<Rightarrow> nat \<Rightarrow> (frame \<Rightarrow> error + frame) \<Rightarrow> error option \<times> store" where
  "assign st a f =
     (case heap st a of
        None \<Rightarrow> (Some (KeyError (Index a)), st)
      | Some df \<Rightarrow>
          (case f df of
             Inl e \<Rightarrow> (Some e, st)
           | Inr df' \<Rightarrow> (None, st\<lparr>heap := (heap st)(a \<mapsto> df')\<rparr>)))"

definition deref :: "store \<Rightarrow> nat \<Rightarrow> frame" where
  "deref st a = (case heap st a of Some df \<Rightarrow> df | None \<Rightarrow> \<lparr>cols = [], dtypes = (\<lambda>c. ObjectT), rows = []\<rparr>)"

text \<open>
  The statements of \<^verbatim>\<open>add_latest_entry_before_date\<close> that bind or change a table, on two
  references: line 26 rebinds \<^verbatim>\<open>data_df\<close> to a copy, line 27 assigns to the table that
  \<^verbatim>\<open>data_df\<close> then names, and the rest reads the target table and that copy. The table
  operations are parameters: \<open>parse\<close> is the right-hand side of line 27 and \<open>attach\<close> is
  lines 30 to 69, and each may return or raise anything.
\<close>

definition entry_statements ::
  "(frame \<Rightarrow> error + frame) \<Rightarrow> (frame \<Rightarrow> frame \<Rightarrow> error + frame) \<Rightarrow>
     store \<Rightarrow> nat \<Rightarrow> nat \<Rightarrow> (error + frame) \<times> store" where
  "entry_statements parse attach st goal_df data_df =
     (case copy st data_df of
        (Inl e, st1) \<Rightarrow> (Inl e, st1)
      | (Inr data_df, st1) \<Rightarrow>
          (case assign st1 data_df parse of
             (Some e, st2) \<Rightarrow> (Inl e, st2)
           | (None, st2) \<Rightarrow> (attach (deref st2 goal_df) (deref st2 data_df), st2)))"

definition call_add_latest_entry_before_date ::
  "store \<Rightarrow> nat \<Rightarrow> nat \<Rightarrow> string \<Rightarrow> string \<Rightarrow> string \<Rightarrow> string option \<Rightarrow> string \<Rightarrow>
     (error + frame) \<times> store" where
  "call_add_latest_entry_before_date st goal_df data_df source_date_col reference_date_col
       value_col result_col_name_opt id_col =
     (let result_col_name =
            (case result_col_name_opt of None \<Rightarrow> value_col | Some n \<Rightarrow> n) in
      entry_statements (\<lambda>df. parse_dates df source_date_col)
        (\<lambda>goal data. attach_latest_entry goal data source_date_col reference_date_col
           value_col result_col_name id_col)
        st goal_df data_df)"

text \<open>
  The statements of \<^verbatim>\<open>add_latest_diagnosis_entry\<close> that bind or change a table: the copy of
  line 98, the assignment of line 99, the copy of the matched rows of line 115 and the
  assignment of line 116 to it, the new table \<^verbatim>\<open>updated_df\<close> of line 136 and the assignment
  of line 144 to it. The table operations are parameters: \<open>parse\<close> is the right-hand side
  of line 99, \<open>matched\<close> lines 102 to 115, \<open>mark\<close> line 116, \<open>attach\<close> lines 119 to 141 and
  \<open>blank\<close> the right-hand side of line 144, and each may return or raise anything.
\<close>

definition diagnosis_statements ::
  "(frame \<Rightarrow> error + frame) \<Rightarrow> (frame \<Rightarrow> error + frame) \<Rightarrow> (frame \<Rightarrow> error + frame) \<Rightarrow>
     (frame \<Rightarrow> frame \<Rightarrow> error + frame) \<Rightarrow> (frame \<Rightarrow> error + frame) \<Rightarrow>
     store \<Rightarrow> nat \<Rightarrow> nat \<Rightarrow> (error + frame) \<times> store" where
  "diagnosis_statements parse matched mark attach blank st goal_df diagnostics_df =
     (case copy st diagnostics_df of
        (Inl e, st1) \<Rightarrow> (Inl e, st1)
      | (Inr diagnostics_df, st1) \<Rightarrow>
     (case assign st1 diagnostics_df parse of
        (Some e, st2) \<Rightarrow> (Inl e, st2)
      | (None, st2) \<Rightarrow>
     (case matched (deref st2 diagnostics_df) of
        Inl e \<Rightarrow> (Inl e, st2)
      | Inr rows_matched \<Rightarrow>
     (let (matched_df, st3) = fresh st2 rows_matched in
      case assign st3 matched_df mark of
        (Some e, st4) \<Rightarrow> (Inl e, st4)
      | (None, st4) \<Rightarrow>
     (case attach (deref st4 goal_df) (deref st4 matched_df) of
        Inl e \<Rightarrow> (Inl e, st4)
      | Inr updated \<Rightarrow>
     (let (updated_df, st5) = fresh st4 updated in
      case assign st5 updated_df blank of
        (Some e, st6) \<Rightarrow> (Inl e, st6)
      | (None, st6) \<Rightarrow> (Inr (deref st6 updated_df), st6)))))))"

definition call_add_latest_diagnosis_entry ::
  "engine \<Rightarrow> store \<Rightarrow> nat \<Rightarrow> nat \<Rightarrow> string \<Rightarrow> string \<Rightarrow> string list option \<Rightarrow>
     string list option \<Rightarrow> string \<Rightarrow> string \<Rightarrow> string \<Rightarrow> (error + frame) \<times> store" where
  "call_add_latest_diagnosis_entry re st goal_df diagnostics_df code_col date_col fixed_codes
       code_roots reference_date_col result_col_name id_col =
     diagnosis_statements (\<lambda>df. parse_dates df date_col)
       (\<lambda>df. matched_rows re df code_col fixed_codes code_roots)
       (\<lambda>df. Inr (mark_codes df code_col))
       (\<lambda>goal marked. attach_latest_diagnosis goal marked code_col date_col
          reference_date_col result_col_name id_col)
       (\<lambda>df. blank_result df result_col_name)
       st goal_df diagnostics_df"

section \<open>The vocabulary of the claims\<close>

text \<open>
  The first element of a list at which a measure is greatest: the element kept by a scan
  from the left that replaces its candidate only by a strictly greater one.
\<close>

fun first_max_from :: "('a \<Rightarrow> int) \<Rightarrow> 'a \<Rightarrow> 'a list \<Rightarrow> 'a" where
  "first_max_from f b [] = b"
| "first_max_from f b (x # xs) =
     (if f b < f x then first_max_from f x xs else first_max_from f b xs)"

definition first_max :: "('a \<Rightarrow> int) \<Rightarrow> 'a list \<Rightarrow> 'a option" where
  "first_max f xs = (case xs of [] \<Rightarrow> None | x # ys \<Rightarrow> Some (first_max_from f x ys))"


text \<open>The parsed date of a source cell, missing when it does not parse.\<close>

definition parsed :: "cell \<Rightarrow> cell" where
  "parsed c = (case to_datetime c of Inr d \<Rightarrow> d | Inl e \<Rightarrow> NA)"

text \<open>
  The source rows that are eligible for a target row \<open>g\<close>: the rows of the subject of
  \<open>g\<close> whose date is strictly before the reference date of \<open>g\<close>, in the order of the
  source table.
\<close>

definition eligible :: "frame \<Rightarrow> string \<Rightarrow> string \<Rightarrow> row \<Rightarrow> row list" where
  "eligible data_df id_col date_col g =
     filter (\<lambda>s. s id_col = g id_col \<and>
                  cell_lt (parsed (s date_col)) (g date_col) = Inr True)
       (map snd (rows data_df))"

section \<open>Example tables\<close>

text \<open>
  A table written row by row, with the index 0, 1, 2, ... The scenario of the
  specification: one target row, subject 1 with reference date 2020-01-10, and two source
  rows of subject 1, value 5 on 2020-01-01 and value -2 on 2020-01-05. The date column has
  the same label in both tables.
\<close>

definition table :: "string list \<Rightarrow> dtype list \<Rightarrow> cell list list \<Rightarrow> frame" where
  "table cs ts rs =
     \<lparr>cols = cs,
      dtypes = (\<lambda>c. case map_of (zip cs ts) c of Some t \<Rightarrow> t | None \<Rightarrow> ObjectT),
      rows = enumerate 0 (map (\<lambda>r c. case map_of (zip cs r) c of Some v \<Rightarrow> v | None \<Rightarrow> NA) rs)\<rparr>"

definition goal_ex :: frame where
  "goal_ex = table [''idp'', ''t0''] [NumericT, DatetimeT] [[Num 1, Date 20200110]]"

definition data_ex :: frame where
  "data_ex = table [''idp'', ''t0'', ''val''] [NumericT, ObjectT, NumericT]
     [[Num 1, Str ''20200101'', Num 5], [Num 1, Str ''20200105'', Num (- 2)]]"

definition diag_ex :: frame where
  "diag_ex = table [''idp'', ''t0'', ''icd''] [NumericT, ObjectT, ObjectT]
     [[Num 1, Str ''20200101'', Str ''I15.0''], [Num 1, Str ''20200105'', Str ''I150'']]"

text \<open>The cells of a column of the returned table, or the error raised.\<close>

definition column_values :: "error + frame \<Rightarrow> string \<Rightarrow> error + cell list" where
  "column_values res c =
     (case res of Inl e \<Rightarrow> Inl e | Inr df \<Rightarrow> Inr (map (\<lambda>(i, r). r c) (rows df)))"

definition store_ex :: store where
  "store_ex =
     \<lparr>heap = (\<lambda>a. if a = 0 then Some goal_ex else if a = 1 then Some data_ex
              else if a = 2 then Some diag_ex else None),
      next_free = 3\<rparr>"



section \<open>Basic facts about the table operations\<close>


lemma and_then_Inl: "and_then (Inl e) f = Inl e"
  by (simp add: and_then_def)

lemma and_then_Inr_simp: "and_then (Inr x) f = f x"
  by (simp add: and_then_def)








lemma map_of_zip_map_none:
  "c \<notin> f ` set xs \<Longrightarrow> map_of (zip (map f xs) xs) c = None"
  by (induction xs) auto


lemma relabel_miss:
  "c \<notin> f ` set xs \<Longrightarrow> relabel (zip (map f xs) xs) r d c = d"
  by (simp add: relabel_def map_of_zip_map_none)


section \<open>The caller's tables are not changed\<close>

lemma entry_statements_frame:
  "a < next_free st \<Longrightarrow> heap (snd (entry_statements parse attach st g d)) a = heap st a"
  unfolding entry_statements_def
  by (auto simp: copy_def fresh_def assign_def split: option.splits sum.splits prod.splits)

lemma diagnosis_statements_frame:
  "a < next_free st \<Longrightarrow>
   heap (snd (diagnosis_statements parse matched mark attach blank st g d)) a = heap st a"
  unfolding diagnosis_statements_def Let_def
  by (auto simp: copy_def fresh_def assign_def split: option.splits sum.splits prod.splits)

text \<open>
  On references to two tables of the store, a call returns what the function on table
  values returns.
\<close>

lemma call_entry_result:
  assumes "heap st g = Some goal_df" "heap st d = Some data_df"
    and "g < next_free st" "d < next_free st"
  shows "fst (call_add_latest_entry_before_date st g d src ref val res idc) =
         add_latest_entry_before_date goal_df data_df src ref val res idc"
  using assms
  unfolding call_add_latest_entry_before_date_def entry_statements_def
    add_latest_entry_before_date_def Let_def
  by (auto simp: copy_def fresh_def assign_def deref_def and_then_def
      split: option.splits sum.splits prod.splits)

lemma call_diag_result:
  assumes "heap st g = Some goal_df" "heap st d = Some diagnostics_df"
    and "g < next_free st" "d < next_free st"
  shows "fst (call_add_latest_diagnosis_entry re st g d code date fc cr ref res idc) =
         add_latest_diagnosis_entry re goal_df diagnostics_df code date fc cr ref res idc"
  using assms
  unfolding call_add_latest_diagnosis_entry_def diagnosis_statements_def
    add_latest_diagnosis_entry_def Let_def
  by (auto simp: copy_def fresh_def assign_def deref_def and_then_def
      split: option.splits sum.splits prod.splits)

text \<open>
  Claim C10. Neither operation modifies a table of the caller: whatever the call returns
  or raises, every address that was in use before the call, so also the address of the
  target table and of the source or diagnostics table, holds the same table after the
  call. The date column is parsed in a copy at a fresh address. This holds for the two
  calls with any regular-expression engine, and for their statements with any table
  operations in place of the ones modelled here, whatever those return or raise.
\<close>

theorem caller_tables_unchanged:
  "a < next_free st \<Longrightarrow>
   heap (snd (call_add_latest_entry_before_date st goal_df data_df source_date_col
                reference_date_col value_col result_col_name_opt id_col)) a = heap st a \<and>
   heap (snd (call_add_latest_diagnosis_entry re st goal_df diagnostics_df code_col date_col
                fixed_codes code_roots reference_date_col result_col_name id_col)) a = heap st a \<and>
   heap (snd (entry_statements parse attach st goal_df data_df)) a = heap st a \<and>
   heap (snd (diagnosis_statements parse matched mark attach' blank st goal_df
                diagnostics_df)) a = heap st a"
  by (simp add: call_add_latest_entry_before_date_def call_add_latest_diagnosis_entry_def
      Let_def entry_statements_frame diagnosis_statements_frame)

theorem caller_tables_unchanged_witness:
  "(2::nat) < next_free store_ex \<and>
   heap (snd (call_add_latest_entry_before_date store_ex 0 1 ''t0'' ''t0'' ''val'' None
                ''idp'')) 0 = Some goal_ex \<and>
   heap (snd (call_add_latest_entry_before_date store_ex 0 1 ''t0'' ''t0'' ''val'' None
                ''idp'')) 1 = Some data_ex \<and>
   heap (snd (call_add_latest_diagnosis_entry plain_engine store_ex 0 2 ''icd'' ''t0'' None
                (Some [''I15'']) ''t0'' ''diagnosis'' ''idp'')) 0 = Some goal_ex \<and>
   heap (snd (call_add_latest_diagnosis_entry plain_engine store_ex 0 2 ''icd'' ''t0'' None
                (Some [''I15'']) ''t0'' ''diagnosis'' ''idp'')) 2 = Some diag_ex \<and>
   next_free (snd (call_add_latest_entry_before_date store_ex 0 1 ''t0'' ''t0'' ''val'' None
                ''idp'')) = 4 \<and>
   next_free (snd (call_add_latest_diagnosis_entry plain_engine store_ex 0 2 ''icd'' ''t0'' None
                (Some [''I15'']) ''t0'' ''diagnosis'' ''idp'')) = 6 \<and>
   column_values (fst (call_add_latest_diagnosis_entry plain_engine store_ex 0 2 ''icd'' ''t0''
                None (Some [''I15'']) ''t0'' ''diagnosis'' ''idp'')) ''diagnosis'' =
     Inr [Str ''1'']"
proof -
  have n: "(2::nat) < next_free store_ex" "(1::nat) < next_free store_ex"
    "(0::nat) < next_free store_ex" by (simp_all add: store_ex_def)
  have h: "heap store_ex 0 = Some goal_ex" "heap store_ex 1 = Some data_ex"
    "heap store_ex 2 = Some diag_ex" by (simp_all add: store_ex_def)
  have e1: "next_free (snd (call_add_latest_entry_before_date store_ex 0 1 ''t0'' ''t0''
      ''val'' None ''idp'')) = 4" by code_simp
  have e2: "next_free (snd (call_add_latest_diagnosis_entry plain_engine store_ex 0 2 ''icd''
      ''t0'' None (Some [''I15'']) ''t0'' ''diagnosis'' ''idp'')) = 6" by code_simp
  have e3: "column_values (fst (call_add_latest_diagnosis_entry plain_engine store_ex 0 2
      ''icd'' ''t0'' None (Some [''I15'']) ''t0'' ''diagnosis'' ''idp'')) ''diagnosis'' =
      Inr [Str ''1'']" by code_simp
  note t0 = caller_tables_unchanged [OF n(3), where goal_df = 0 and data_df = 1
      and source_date_col = "''t0''" and reference_date_col = "''t0''"
      and value_col = "''val''" and result_col_name_opt = None and id_col = "''idp''"
      and re = plain_engine and diagnostics_df = 2 and code_col = "''icd''"
      and date_col = "''t0''" and fixed_codes = None and code_roots = "Some [''I15'']"
      and result_col_name = "''diagnosis''"]
  note t1 = caller_tables_unchanged [OF n(2), where goal_df = 0 and data_df = 1
      and source_date_col = "''t0''" and reference_date_col = "''t0''"
      and value_col = "''val''" and result_col_name_opt = None and id_col = "''idp''"]
  note t2 = caller_tables_unchanged [OF n(1), where goal_df = 0 and re = plain_engine
      and diagnostics_df = 2 and code_col = "''icd''" and reference_date_col = "''t0''"
      and date_col = "''t0''" and fixed_codes = None and code_roots = "Some [''I15'']"
      and result_col_name = "''diagnosis''" and id_col = "''idp''"]
  from t0 t1 t2 n h e1 e2 e3 show ?thesis by simp
qed

section \<open>Filters and merges\<close>






lemma boolean_index_cols [simp]:
  "cols (boolean_index df keep) = cols df" "dtypes (boolean_index df keep) = dtypes df"
  by (simp_all add: boolean_index_def)



section \<open>The first maximum and the selection of a group\<close>


lemma first_max_from_ge_start: "f b \<le> f (first_max_from f b xs)"
proof (induction xs arbitrary: b)
  case Nil
  show ?case by simp
next
  case (Cons a xs)
  from Cons.IH [of a] Cons.IH [of b] show ?case by auto
qed





lemma first_max_from_split:
  "\<exists>as bs. b # xs = as @ first_max_from f b xs # bs \<and>
     (\<forall>a \<in> set as. f a < f (first_max_from f b xs)) \<and>
     (\<forall>c \<in> set bs. f c \<le> f (first_max_from f b xs))"
proof (induction xs arbitrary: b)
  case Nil
  show ?case by (rule exI [of _ "[]"]) simp
next
  case (Cons a xs)
  show ?case
  proof (cases "f b < f a")
    case True
    define M where "M = first_max_from f a xs"
    from True have eq: "first_max_from f b (a # xs) = M" by (simp add: M_def)
    from Cons.IH [of a] obtain as bs where
      s: "a # xs = as @ M # bs"
      and l: "\<forall>x \<in> set as. f x < f M"
      and r: "\<forall>c \<in> set bs. f c \<le> f M" unfolding M_def by blast
    have "f a \<le> f M" unfolding M_def by (rule first_max_from_ge_start)
    with True have "f b < f M" by simp
    with l have l': "\<forall>x \<in> set (b # as). f x < f M" by simp
    from s have "b # a # xs = (b # as) @ M # bs" by simp
    with l' r show ?thesis unfolding eq by blast
  next
    case False
    define M where "M = first_max_from f b xs"
    from False have eq: "first_max_from f b (a # xs) = M" by (simp add: M_def)
    from Cons.IH [of b] obtain as bs where
      s: "b # xs = as @ M # bs"
      and l: "\<forall>x \<in> set as. f x < f M"
      and r: "\<forall>c \<in> set bs. f c \<le> f M" unfolding M_def by blast
    have ge: "f b \<le> f M" unfolding M_def by (rule first_max_from_ge_start)
    show ?thesis
    proof (cases as)
      case Nil
      with s have "M = b" "xs = bs" by simp_all
      with r False have "b # a # xs = [] @ M # (a # bs)" "\<forall>c \<in> set (a # bs). f c \<le> f M"
        by simp_all
      then show ?thesis unfolding eq by (metis empty_iff empty_set)
    next
      case (Cons b' as')
      with s have b': "b' = b" and xs: "xs = as' @ M # bs" by simp_all
      from l Cons b' have "f b < f M" by simp
      with False have "f a < f M" by simp
      with l Cons b' have l': "\<forall>x \<in> set (b # a # as'). f x < f M" by simp
      from xs have "b # a # xs = (b # a # as') @ M # bs" by simp
      with l' r show ?thesis unfolding eq by blast
    qed
  qed
qed



lemma first_max_split:
  assumes "first_max f xs = Some x"
  shows "\<exists>as bs. xs = as @ x # bs \<and> (\<forall>a \<in> set as. f a < f x) \<and> (\<forall>c \<in> set bs. f c \<le> f x)"
proof -
  from assms obtain b ys where "xs = b # ys" "x = first_max_from f b ys"
    by (auto simp: first_max_def split: list.splits)
  with first_max_from_split [of b ys f] show ?thesis by simp
qed











lemma filter_enumerate_snd:
  "map snd (filter (\<lambda>(n, h). P h) (enumerate k xs)) = filter P xs"
  by (induction xs arbitrary: k) auto













section \<open>The rows selected and the cells attached\<close>























section \<open>The claims about the returned table\<close>






lemma eligible_mono:
  "set (rows M) \<subseteq> set (rows D) \<Longrightarrow> set (eligible M idc d g) \<subseteq> set (eligible D idc d g)"
  by (auto simp: eligible_def)

















end
